theory Spec2Isabelle
  imports Main "HOL-Library.AList"
begin

section \<open>The contact data model of zadanie1.py\<close>

text \<open>
  The program is a command-line contact manager. This theory embeds its data model:
  the validated fields (\<open>Field\<close>, \<open>Name\<close>, \<open>Phone\<close>, \<open>Birthday\<close>), the contact
  \<open>Record\<close> and the \<open>AddressBook\<close>. Python strings are modelled as \<open>string\<close>, a
  \<open>char\<close> being a code point below 256; the constructor of \<open>Phone\<close>, the one function
  that looks inside a string, is also given over any character type. Every \<open>raise\<close>
  of the source is the \<open>Inl\<close> branch of a sum.
\<close>

subsection \<open>Errors and dynamically typed values\<close>

datatype error =
    ValueError string
  | AttributeError string
  | TypeError string
  | UnpicklingError string

text \<open>A calendar date, as \<open>datetime.date\<close> carries it.\<close>

record date =
  year :: int
  month :: int
  day :: int

text \<open>
  The values a birthday argument takes in this program: \<open>None\<close> (the default of
  \<open>Record.__init__\<close>), a \<open>str\<close> (what the command loop passes) or a date object
  (what \<open>days_to_birthday\<close> reads \<open>.month\<close> and \<open>.day\<close> from).
\<close>

datatype pyval = PyNone | PyStr string | PyDate date

text \<open>Python truthiness: \<open>None\<close> and the empty string are false, a date is true.\<close>

fun truthy :: "pyval \<Rightarrow> bool" where
  "truthy PyNone = False"
| "truthy (PyStr s) = (s \<noteq> [])"
| "truthy (PyDate d) = True"

subsection \<open>Field and its subclasses\<close>

text \<open>
  \<open>class Field\<close>: one attribute \<open>_value\<close>. \<open>__init__\<close> assigns it directly; the
  property setter calls \<open>self.validate(new_value)\<close> first and assigns only when that
  returns.
\<close>

record 'a Field =
  value' :: 'a

definition Field_init :: "'a \<Rightarrow> 'a Field" where
  "Field_init v = \<lparr>value' = v\<rparr>"

text \<open>\<open>Field.validate\<close> is \<open>pass\<close>: it accepts every value.\<close>

definition Field_validate :: "'a \<Rightarrow> error + unit" where
  "Field_validate v = Inr ()"

text \<open>The setter of the property \<open>value\<close>, with the class's \<open>validate\<close> as argument.\<close>

definition value_setter :: "('a \<Rightarrow> error + unit) \<Rightarrow> 'a Field \<Rightarrow> 'a \<Rightarrow> error + 'a Field" where
  "value_setter validate self new_value =
     (case validate new_value of
        Inl e \<Rightarrow> Inl e
      | Inr u \<Rightarrow> Inr (self\<lparr>value' := new_value\<rparr>))"

type_synonym Name = "string Field"
type_synonym Phone = "string Field"
type_synonym Birthday = "pyval Field"

definition Name_init :: "string \<Rightarrow> Name" where
  "Name_init name_value = Field_init name_value"

text \<open>
  \<open>Phone.__init__\<close>: keep the characters of the argument that \<open>str.isdigit\<close> accepts;
  exactly nine of them are stored, anything else raises \<open>ValueError\<close>. \<open>Phone\<close> does
  not override \<open>validate\<close>. \<open>str.isdigit\<close> belongs to the standard library: here it is
  the parameter \<open>isdigit\<close>, over any type of characters, so that what is proved of the
  constructor holds of every Python string.
\<close>

definition Phone_init_with :: "('c \<Rightarrow> bool) \<Rightarrow> 'c list \<Rightarrow> error + 'c list Field" where
  "Phone_init_with isdigit phone =
     (let normalized_phone = filter isdigit phone in
      if length normalized_phone = 9
      then Inr (Field_init normalized_phone)
      else Inl (ValueError ''Phone number must contain exactly 9 digits.''))"

text \<open>
  \<open>str.isdigit\<close> on the code points below 256: it accepts the ten decimal digits
  \<open>0\<close> to \<open>9\<close> and also the superscript two (U+00B2), the superscript three (U+00B3)
  and the superscript one (U+00B9).
\<close>

definition isdigit :: "char \<Rightarrow> bool" where
  "isdigit c = (c \<in> set ''0123456789'' \<or> c = CHR 0xB2 \<or> c = CHR 0xB3 \<or> c = CHR 0xB9)"

text \<open>The constructor of \<open>Phone\<close> on the strings of the record model.\<close>

definition Phone_init :: "string \<Rightarrow> error + Phone" where
  "Phone_init phone = Phone_init_with isdigit phone"

text \<open>
  \<open>Birthday\<close> inherits \<open>Field.__init__\<close> and overrides only \<open>validate\<close>, which the
  setter calls. \<open>datetime.strptime\<close> belongs to the standard library: it is the
  parameter \<open>strptime\<close>. A \<open>ValueError\<close> of the parser is re-raised with the program's
  message, any other exception propagates; an argument that is not a \<open>str\<close> makes
  \<open>strptime\<close> raise \<open>TypeError\<close>.
\<close>

definition Birthday_init :: "pyval \<Rightarrow> Birthday" where
  "Birthday_init birthday_value = Field_init birthday_value"

definition Birthday_validate :: "(string \<Rightarrow> error + date) \<Rightarrow> pyval \<Rightarrow> error + unit" where
  "Birthday_validate strptime v =
     (case v of
        PyStr s \<Rightarrow>
          (case strptime s of
             Inl (ValueError m) \<Rightarrow> Inl (ValueError ''Invalid date format. Please use YYYY-MM-DD.'')
           | Inl e \<Rightarrow> Inl e
           | Inr d \<Rightarrow> Inr ())
      | PyNone \<Rightarrow> Inl (TypeError ''strptime() argument 1 must be str'')
      | PyDate d \<Rightarrow> Inl (TypeError ''strptime() argument 1 must be str''))"

subsection \<open>Calendar arithmetic of the datetime module\<close>

text \<open>
  \<open>days_to_birthday\<close> builds dates with \<open>datetime(y, m, d)\<close>, compares them and
  subtracts them. These follow the proleptic Gregorian calendar of the \<open>datetime\<close>
  module: the constructor raises \<open>ValueError\<close> outside years 1 to 9999, months 1 to
  12 and the days of the month; a difference of dates is a difference of ordinals.
\<close>

definition is_leap :: "int \<Rightarrow> bool" where
  "is_leap y = (y mod 4 = 0 \<and> (y mod 400 = 0 \<or> y mod 100 \<noteq> 0))"

definition days_in_month :: "int \<Rightarrow> int \<Rightarrow> int" where
  "days_in_month y m =
     (if m = 2 then (if is_leap y then 29 else 28)
      else if m = 4 \<or> m = 6 \<or> m = 9 \<or> m = 11 then 30
      else 31)"

definition datetime_new :: "int \<Rightarrow> int \<Rightarrow> int \<Rightarrow> error + date" where
  "datetime_new y m d =
     (if y < 1 \<or> 9999 < y then Inl (ValueError ''year is out of range'')
      else if m < 1 \<or> 12 < m then Inl (ValueError ''month must be in 1..12'')
      else if d < 1 \<or> days_in_month y m < d then Inl (ValueError ''day is out of range for month'')
      else Inr \<lparr>year = y, month = m, day = d\<rparr>)"

definition days_before_year :: "int \<Rightarrow> int" where
  "days_before_year y = (y - 1) * 365 + (y - 1) div 4 - (y - 1) div 100 + (y - 1) div 400"

definition days_before_month :: "int \<Rightarrow> int \<Rightarrow> int" where
  "days_before_month y m =
     (\<Sum>k \<leftarrow> [1 ..< nat m]. days_in_month y (int k))"

definition toordinal :: "date \<Rightarrow> int" where
  "toordinal d = days_before_year (year d) + days_before_month (year d) (month d) + day d"

text \<open>\<open>a > b\<close> on dates compares year, month and day in this order.\<close>

definition date_gt :: "date \<Rightarrow> date \<Rightarrow> bool" where
  "date_gt a b =
     (year b < year a \<or> (year a = year b \<and> (month b < month a \<or> (month a = month b \<and> day b < day a))))"

subsection \<open>Record\<close>

record Record =
  name :: Name
  birthday :: "Birthday option"
  phones :: "Phone list"

text \<open>
  \<open>Record.__init__\<close>: the birthday is wrapped when the argument is truthy. Neither
  \<open>Name\<close> nor \<open>Birthday\<close> validates in its constructor.
\<close>

definition Record_init :: "string \<Rightarrow> pyval \<Rightarrow> Record" where
  "Record_init name_value birthday_value =
     \<lparr>name = Name_init name_value,
      birthday = (if truthy birthday_value then Some (Birthday_init birthday_value) else None),
      phones = []\<rparr>"

definition add_phone :: "string \<Rightarrow> Record \<Rightarrow> error + Record" where
  "add_phone phone_value self =
     (case Phone_init phone_value of
        Inl e \<Rightarrow> Inl e
      | Inr phone \<Rightarrow> Inr (self\<lparr>phones := phones self @ [phone]\<rparr>))"

text \<open>
  \<open>remove_phone\<close>: the loop stops at the first phone whose value equals the argument
  and removes that object from the list.
\<close>

fun remove_phone_loop :: "string \<Rightarrow> Phone list \<Rightarrow> Phone list" where
  "remove_phone_loop phone_value [] = []"
| "remove_phone_loop phone_value (phone # rest) =
     (if value' phone = phone_value then rest
      else phone # remove_phone_loop phone_value rest)"

definition remove_phone :: "string \<Rightarrow> Record \<Rightarrow> error + Record" where
  "remove_phone phone_value self =
     Inr (self\<lparr>phones := remove_phone_loop phone_value (phones self)\<rparr>)"

text \<open>
  \<open>edit_phone\<close>: the loop stops at the first phone whose value equals
  \<open>old_phone_value\<close> and assigns through the property setter. The setter runs the
  \<open>validate\<close> of \<open>Phone\<close>, which is the inherited \<open>Field.validate\<close>.
\<close>

fun edit_phone_loop :: "string \<Rightarrow> string \<Rightarrow> Phone list \<Rightarrow> error + Phone list" where
  "edit_phone_loop old_phone_value new_phone_value [] = Inr []"
| "edit_phone_loop old_phone_value new_phone_value (phone # rest) =
     (if value' phone = old_phone_value
      then (case value_setter Field_validate phone new_phone_value of
              Inl e \<Rightarrow> Inl e
            | Inr phone' \<Rightarrow> Inr (phone' # rest))
      else (case edit_phone_loop old_phone_value new_phone_value rest of
              Inl e \<Rightarrow> Inl e
            | Inr rest' \<Rightarrow> Inr (phone # rest')))"

definition edit_phone :: "string \<Rightarrow> string \<Rightarrow> Record \<Rightarrow> error + Record" where
  "edit_phone old_phone_value new_phone_value self =
     (case edit_phone_loop old_phone_value new_phone_value (phones self) of
        Inl e \<Rightarrow> Inl e
      | Inr ps \<Rightarrow> Inr (self\<lparr>phones := ps\<rparr>))"

text \<open>
  \<open>days_to_birthday\<close>, with \<open>datetime.now().date()\<close> as the argument \<open>today\<close>. A
  \<open>Birthday\<close> object is truthy whatever it holds. Reading \<open>.month\<close> of the stored value
  raises \<open>AttributeError\<close> unless the value is a date.
\<close>

definition days_to_birthday :: "date \<Rightarrow> Record \<Rightarrow> error + int option" where
  "days_to_birthday today self =
     (case birthday self of
        None \<Rightarrow> Inr None
      | Some b \<Rightarrow>
          (case value' b of
             PyNone \<Rightarrow> Inl (AttributeError ''NoneType object has no attribute month'')
           | PyStr s \<Rightarrow> Inl (AttributeError ''str object has no attribute month'')
           | PyDate bd \<Rightarrow>
               (case datetime_new (year today) (month bd) (day bd) of
                  Inl e \<Rightarrow> Inl e
                | Inr next_birthday \<Rightarrow>
                    if date_gt today next_birthday
                    then (case datetime_new (year today + 1) (month bd) (day bd) of
                            Inl e \<Rightarrow> Inl e
                          | Inr next_birthday' \<Rightarrow>
                              Inr (Some (toordinal next_birthday' - toordinal today)))
                    else Inr (Some (toordinal next_birthday - toordinal today)))))"

subsection \<open>AddressBook\<close>

text \<open>
  \<open>AddressBook(UserDict)\<close>: \<open>data\<close> is a \<open>dict\<close> from names to records. A \<open>dict\<close>
  iterates in insertion order and an assignment to a present key keeps the key's
  place, which is \<open>AList.update\<close> on an association list.
\<close>

record AddressBook =
  data :: "(string \<times> Record) list"

definition AddressBook_init :: AddressBook where
  "AddressBook_init = \<lparr>data = []\<rparr>"

definition add_record :: "Record \<Rightarrow> AddressBook \<Rightarrow> AddressBook" where
  "add_record record self = self\<lparr>data := AList.update (value' (name record)) record (data self)\<rparr>"

text \<open>
  \<open>search_records\<close>: the inner loop over \<open>criteria.items()\<close> leaves with
  \<open>match = False\<close> at the first criterion that fails; the outer loop appends the
  records whose inner loop ran to its end.
\<close>

fun criteria_loop :: "(string \<times> string) list \<Rightarrow> Record \<Rightarrow> bool" where
  "criteria_loop [] record = True"
| "criteria_loop ((field, v) # rest) record =
     (if field = ''name'' \<and> value' (name record) \<noteq> v then False
      else if field = ''phone''
      then (if \<not> list_ex (\<lambda>phone. value' phone = v) (phones record) then False
            else criteria_loop rest record)
      else criteria_loop rest record)"

fun search_loop :: "(string \<times> string) list \<Rightarrow> Record list \<Rightarrow> Record list \<Rightarrow> Record list" where
  "search_loop criteria [] results = results"
| "search_loop criteria (record # rest) results =
     search_loop criteria rest (if criteria_loop criteria record then results @ [record] else results)"

definition search_records :: "(string \<times> string) list \<Rightarrow> AddressBook \<Rightarrow> Record list" where
  "search_records criteria self = search_loop criteria (map snd (data self)) []"

text \<open>
  Persistence. The file system maps a file name to the bytes written there; the
  standard output is the list of printed lines. \<open>pickle.dump\<close> and \<open>pickle.load\<close>
  belong to the standard library: they are the parameters \<open>dump\<close> and \<open>load\<close>.
  Opening a missing file for reading raises \<open>FileNotFoundError\<close>, which
  \<open>load_from_file\<close> catches; an exception of \<open>pickle.load\<close> propagates.
\<close>

record 'b World =
  files :: "string \<rightharpoonup> 'b"
  stdout :: "string list"

definition save_to_file ::
  "((string \<times> Record) list \<Rightarrow> 'b) \<Rightarrow> string \<Rightarrow> AddressBook \<Rightarrow> 'b World \<Rightarrow> 'b World" where
  "save_to_file dump filename self w = w\<lparr>files := (files w)(filename \<mapsto> dump (data self))\<rparr>"

definition load_from_file ::
  "('b \<Rightarrow> error + (string \<times> Record) list) \<Rightarrow> string \<Rightarrow> AddressBook \<Rightarrow> 'b World
     \<Rightarrow> error + (AddressBook \<times> 'b World)" where
  "load_from_file load filename self w =
     (case files w filename of
        None \<Rightarrow>
          Inr (self\<lparr>data := []\<rparr>,
               w\<lparr>stdout := stdout w @ [''File not found. Creating a new address book.'']\<rparr>)
      | Some bytes \<Rightarrow>
          (case load bytes of
             Inl e \<Rightarrow> Inl e
           | Inr d \<Rightarrow> Inr (self\<lparr>data := d\<rparr>, w)))"

subsection \<open>Predicates of the specification\<close>

text \<open>A decimal digit, in the specification's sense: one of \<open>0\<close> to \<open>9\<close>.\<close>

definition decimal_digit :: "char \<Rightarrow> bool" where
  "decimal_digit c = (c \<in> set ''0123456789'')"

text \<open>
  The phone invariant of the specification: every stored phone value is a string of
  exactly nine decimal digits.
\<close>

definition phone_invariant :: "Record \<Rightarrow> bool" where
  "phone_invariant r =
     list_all (\<lambda>p. length (value' p) = 9 \<and> list_all decimal_digit (value' p)) (phones r)"

text \<open>
  When one search criterion holds of a record, in the specification's words: a
  \<open>name\<close> criterion compares the record's name, a \<open>phone\<close> criterion asks for some
  phone with that value, any other key holds of every record.
\<close>

definition criterion_holds :: "string \<Rightarrow> string \<Rightarrow> Record \<Rightarrow> bool" where
  "criterion_holds field v record =
     (if field = ''name'' then value' (name record) = v
      else if field = ''phone'' then (\<exists>phone \<in> set (phones record). value' phone = v)
      else True)"

text \<open>The key invariant of the address book: every key is the name of its record.\<close>

definition keys_match :: "AddressBook \<Rightarrow> bool" where
  "keys_match book = list_all (\<lambda>(k, r). k = value' (name r)) (data book)"

section \<open>Phone construction\<close>




section \<open>Editing and removing a phone that is not there\<close>

lemma edit_phone_loop_absent:
  "old \<notin> value' ` set ps \<Longrightarrow> edit_phone_loop old new ps = Inr ps"
  by (induction ps) auto

lemma remove_phone_loop_absent:
  "v \<notin> value' ` set ps \<Longrightarrow> remove_phone_loop v ps = ps"
  by (induction ps) auto

text \<open>
  Claim C10. When no phone of the record has the value \<open>old\<close>, \<open>edit_phone old new\<close>
  returns without an error and leaves the whole record as it was, for every \<open>new\<close>;
  when no phone has the value \<open>v\<close>, \<open>remove_phone v\<close> does the same.
\<close>

theorem absent_phone_noop:
  "(old \<notin> value' ` set (phones r) \<longrightarrow> edit_phone old new r = Inr r)
   \<and> (v \<notin> value' ` set (phones r) \<longrightarrow> remove_phone v r = Inr r)"
  by (simp add: edit_phone_def remove_phone_def edit_phone_loop_absent remove_phone_loop_absent)

theorem absent_phone_noop_witness:
  "edit_phone ''111111111'' ''abc''
       \<lparr>name = \<lparr>value' = ''bob''\<rparr>, birthday = None, phones = [\<lparr>value' = ''123456789''\<rparr>]\<rparr>
     = Inr \<lparr>name = \<lparr>value' = ''bob''\<rparr>, birthday = None, phones = [\<lparr>value' = ''123456789''\<rparr>]\<rparr>
   \<and> remove_phone ''111111111''
       \<lparr>name = \<lparr>value' = ''bob''\<rparr>, birthday = None, phones = [\<lparr>value' = ''123456789''\<rparr>]\<rparr>
     = Inr \<lparr>name = \<lparr>value' = ''bob''\<rparr>, birthday = None, phones = [\<lparr>value' = ''123456789''\<rparr>]\<rparr>"
  using absent_phone_noop
    [of "''111111111''"
        "\<lparr>name = \<lparr>value' = ''bob''\<rparr>, birthday = None, phones = [\<lparr>value' = ''123456789''\<rparr>]\<rparr>"
        "''abc''" "''111111111''"]
  by simp

section \<open>Editing a phone\<close>

text \<open>
  \<open>add_phone\<close> appends a freshly constructed \<open>Phone\<close>, so no two entries of a phone list
  are the same object and the list of field values stands for the list of objects.
  \<open>add_phone\<close> appends nine characters that \<open>str.isdigit\<close> accepts, and
  \<open>remove_phone\<close> keeps the phone invariant.
\<close>

lemma add_phone_stores_digits:
  "add_phone s r = Inr r' \<Longrightarrow>
   r' = r\<lparr>phones := phones r @ [\<lparr>value' = filter isdigit s\<rparr>]\<rparr> \<and> length (filter isdigit s) = 9"
  by (auto simp: add_phone_def Phone_init_def Phone_init_with_def Field_init_def Let_def
      split: if_splits)

lemma remove_phone_loop_subset: "set (remove_phone_loop v ps) \<subseteq> set ps"
  by (induction ps) auto

lemma remove_phone_preserves_invariant:
  "phone_invariant r \<Longrightarrow> remove_phone v r = Inr r' \<Longrightarrow> phone_invariant r'"
  using remove_phone_loop_subset [of v "phones r"]
  by (auto simp: phone_invariant_def remove_phone_def list_all_iff)

lemma edit_phone_loop_never_raises: "\<exists>ps'. edit_phone_loop old new ps = Inr ps'"
  by (induction ps) (auto simp: value_setter_def Field_validate_def)

text \<open>
  Claim C2. The specification states that every phone of a record is a string of
  exactly nine decimal digits and that \<open>add_phone\<close>, \<open>remove_phone\<close> and \<open>edit_phone\<close>
  keep it so. \<open>edit_phone\<close> does not: on a record that satisfies the invariant,
  \<open>edit_phone ''123456789'' ''12345''\<close> returns a record whose phone is the
  five-character string \<open>12345\<close>, since the setter of \<open>Phone\<close> runs the empty
  \<open>Field.validate\<close>.
\<close>

theorem edit_phone_breaks_phone_invariant:
  "phone_invariant \<lparr>name = \<lparr>value' = ''bob''\<rparr>, birthday = None, phones = [\<lparr>value' = ''123456789''\<rparr>]\<rparr>
   \<and> edit_phone ''123456789'' ''12345''
        \<lparr>name = \<lparr>value' = ''bob''\<rparr>, birthday = None, phones = [\<lparr>value' = ''123456789''\<rparr>]\<rparr>
      = Inr \<lparr>name = \<lparr>value' = ''bob''\<rparr>, birthday = None, phones = [\<lparr>value' = ''12345''\<rparr>]\<rparr>
   \<and> \<not> phone_invariant \<lparr>name = \<lparr>value' = ''bob''\<rparr>, birthday = None, phones = [\<lparr>value' = ''12345''\<rparr>]\<rparr>"
  by (simp add: phone_invariant_def edit_phone_def value_setter_def Field_validate_def
      decimal_digit_def)

text \<open>
  Claim C3. The specification states that \<open>edit_phone\<close> validates the new value by the
  rule of the \<open>Phone\<close> constructor, raises on failure and stores the normalized digits
  on success. In the code \<open>edit_phone\<close> never raises; it stores \<open>abc\<close>, which the
  constructor rejects, and it stores \<open>987-654-321\<close> as given, where the constructor
  stores \<open>987654321\<close>.
\<close>

theorem edit_phone_skips_validation:
  "(\<exists>r'. edit_phone old new r = Inr r')
   \<and> Phone_init ''abc'' = Inl (ValueError ''Phone number must contain exactly 9 digits.'')
   \<and> edit_phone ''123456789'' ''abc''
        \<lparr>name = \<lparr>value' = ''bob''\<rparr>, birthday = None, phones = [\<lparr>value' = ''123456789''\<rparr>]\<rparr>
      = Inr \<lparr>name = \<lparr>value' = ''bob''\<rparr>, birthday = None, phones = [\<lparr>value' = ''abc''\<rparr>]\<rparr>
   \<and> Phone_init ''987-654-321'' = Inr \<lparr>value' = ''987654321''\<rparr>
   \<and> edit_phone ''123456789'' ''987-654-321''
        \<lparr>name = \<lparr>value' = ''bob''\<rparr>, birthday = None, phones = [\<lparr>value' = ''123456789''\<rparr>]\<rparr>
      = Inr \<lparr>name = \<lparr>value' = ''bob''\<rparr>, birthday = None, phones = [\<lparr>value' = ''987-654-321''\<rparr>]\<rparr>"
proof -
  obtain ps' where "edit_phone_loop old new (phones r) = Inr ps'"
    using edit_phone_loop_never_raises by blast
  then have "\<exists>r'. edit_phone old new r = Inr r'"
    by (simp add: edit_phone_def)
  then show ?thesis
    by (simp add: edit_phone_def value_setter_def Field_validate_def Phone_init_def
        Phone_init_with_def Field_init_def isdigit_def)
qed

section \<open>Birthdays\<close>

text \<open>
  The setter of a \<open>Birthday\<close> rejects a string that the date parser rejects. No
  function of the program calls this setter.
\<close>

lemma Birthday_setter_rejects:
  "strptime s = Inl (ValueError m) \<Longrightarrow>
   value_setter (Birthday_validate strptime) b (PyStr s)
     = Inl (ValueError ''Invalid date format. Please use YYYY-MM-DD.'')"
  by (simp add: value_setter_def Birthday_validate_def)

text \<open>
  Claim C4. The specification states that constructing a \<open>Birthday\<close> from a string
  succeeds only when the string is a real date written \<open>YYYY-MM-DD\<close>. The constructor
  is the inherited \<open>Field.__init__\<close>, which stores every value unvalidated:
  \<open>Record(''bob'', ''not-a-date'')\<close> and \<open>Record(''bob'', ''2023-02-30'')\<close> are built
  without an error and keep the string as the birthday.
\<close>

theorem Birthday_init_unvalidated:
  "Birthday_init v = \<lparr>value' = v\<rparr>
   \<and> Record_init ''bob'' (PyStr ''not-a-date'')
       = \<lparr>name = \<lparr>value' = ''bob''\<rparr>, birthday = Some \<lparr>value' = PyStr ''not-a-date''\<rparr>, phones = []\<rparr>
   \<and> Record_init ''bob'' (PyStr ''2023-02-30'')
       = \<lparr>name = \<lparr>value' = ''bob''\<rparr>, birthday = Some \<lparr>value' = PyStr ''2023-02-30''\<rparr>, phones = []\<rparr>"
  by (simp add: Birthday_init_def Record_init_def Name_init_def Field_init_def)

text \<open>
  Every non-empty string given as a birthday makes \<open>days_to_birthday\<close> raise
  \<open>AttributeError\<close>, whatever the day is.
\<close>

lemma days_to_birthday_str:
  "s \<noteq> [] \<Longrightarrow>
   days_to_birthday today (Record_init n (PyStr s)) = Inl (AttributeError ''str object has no attribute month'')"
  by (simp add: days_to_birthday_def Record_init_def Birthday_init_def Field_init_def)

text \<open>
  With a date object as the birthday the function counts the days: 365 from
  2 January 2024 to 1 January 2025, none on the birthday itself, 16 from 1 May to 17 May.
\<close>

lemma days_to_birthday_date_examples:
  "days_to_birthday \<lparr>year = 2024, month = 1, day = 2\<rparr>
     (Record_init ''bob'' (PyDate \<lparr>year = 1990, month = 1, day = 1\<rparr>)) = Inr (Some 365)
   \<and> days_to_birthday \<lparr>year = 2023, month = 5, day = 17\<rparr>
     (Record_init ''bob'' (PyDate \<lparr>year = 1990, month = 5, day = 17\<rparr>)) = Inr (Some 0)
   \<and> days_to_birthday \<lparr>year = 2023, month = 5, day = 1\<rparr>
     (Record_init ''bob'' (PyDate \<lparr>year = 1990, month = 5, day = 17\<rparr>)) = Inr (Some 16)"
  by (simp add: days_to_birthday_def Record_init_def Birthday_init_def Field_init_def
      datetime_new_def days_in_month_def is_leap_def date_gt_def toordinal_def
      days_before_year_def days_before_month_def upt_rec)

text \<open>
  Claim C5. The specification states that \<open>days_to_birthday\<close> returns no value for a
  record without a birthday, and a day count between 0 and 366 for a record with a
  valid birthday. The first part holds. For the second, a birthday built from the
  valid string \<open>1990-05-17\<close> makes the function raise \<open>AttributeError\<close>, since the
  string is stored unparsed and has no attribute \<open>month\<close>; and a birthday holding the
  date 29 February 2020 makes it raise \<open>ValueError\<close> on 1 March 2023, since 2023 has
  no 29 February.
\<close>

theorem days_to_birthday_raises:
  "days_to_birthday today (Record_init n PyNone) = Inr None
   \<and> days_to_birthday today (Record_init ''bob'' (PyStr ''1990-05-17''))
       = Inl (AttributeError ''str object has no attribute month'')
   \<and> days_to_birthday \<lparr>year = 2023, month = 3, day = 1\<rparr>
        (Record_init ''bob'' (PyDate \<lparr>year = 2020, month = 2, day = 29\<rparr>))
       = Inl (ValueError ''day is out of range for month'')"
  by (simp add: days_to_birthday_def Record_init_def Birthday_init_def Field_init_def
      datetime_new_def days_in_month_def is_leap_def)

section \<open>Searching the address book\<close>

text \<open>The inner loop computes the conjunction of the criteria.\<close>

lemma criteria_loop_all:
  "criteria_loop criteria r = list_all (\<lambda>(f, v). criterion_holds f v r) criteria"
  by (induction criteria r rule: criteria_loop.induct)
     (auto simp: criterion_holds_def list_ex_iff)

text \<open>The outer loop appends the matching records in order.\<close>

lemma search_loop_filter:
  "search_loop criteria rs acc = acc @ filter (criteria_loop criteria) rs"
  by (induction rs arbitrary: acc) auto

text \<open>
  Claim C6. \<open>search_records\<close> returns exactly the records of which every criterion
  holds, in the iteration order of the collection: a \<open>name\<close> criterion holds when the
  record's name equals the value, a \<open>phone\<close> criterion when some phone of the record
  equals it, and a criterion with any other key holds of every record.
\<close>

theorem search_records_spec:
  "search_records criteria book =
     filter (\<lambda>r. \<forall>(f, v) \<in> set criteria. criterion_holds f v r) (map snd (data book))"
proof -
  have "criteria_loop criteria = (\<lambda>r. \<forall>(f, v) \<in> set criteria. criterion_holds f v r)"
    by (rule ext) (simp add: criteria_loop_all list_all_iff)
  then show ?thesis
    by (simp add: search_records_def search_loop_filter)
qed

theorem search_records_spec_witness:
  "search_records [(''phone'', ''123456789''), (''name'', ''alice''), (''city'', ''x'')]
     \<lparr>data =
        [(''bob'', \<lparr>name = \<lparr>value' = ''bob''\<rparr>, birthday = None, phones = [\<lparr>value' = ''123456789''\<rparr>]\<rparr>),
         (''alice'', \<lparr>name = \<lparr>value' = ''alice''\<rparr>, birthday = None,
                      phones = [\<lparr>value' = ''555555555''\<rparr>, \<lparr>value' = ''123456789''\<rparr>]\<rparr>),
         (''carol'', \<lparr>name = \<lparr>value' = ''carol''\<rparr>, birthday = None, phones = []\<rparr>)]\<rparr>
   = [\<lparr>name = \<lparr>value' = ''alice''\<rparr>, birthday = None,
       phones = [\<lparr>value' = ''555555555''\<rparr>, \<lparr>value' = ''123456789''\<rparr>]\<rparr>]"
  unfolding search_records_spec by (simp add: criterion_holds_def)

section \<open>Adding records\<close>

lemma keys_match_update:
  "list_all (\<lambda>(k, r). k = value' (name r)) al \<Longrightarrow>
   list_all (\<lambda>(k, r). k = value' (name r)) (AList.update (value' (name r0)) r0 al)"
  by (induction al) auto

lemma keys_match_add_record: "keys_match b \<Longrightarrow> keys_match (add_record r b)"
  by (simp add: keys_match_def add_record_def keys_match_update)

lemma keys_match_foldl:
  "keys_match b \<Longrightarrow> keys_match (foldl (\<lambda>b r. add_record r b) b rs)"
  by (induction rs arbitrary: b) (auto simp: keys_match_add_record)

lemma distinct_add_record:
  "distinct (map fst (data b)) \<Longrightarrow> distinct (map fst (data (add_record r b)))"
  by (simp add: add_record_def distinct_update)

lemma distinct_foldl:
  "distinct (map fst (data b)) \<Longrightarrow> distinct (map fst (data (foldl (\<lambda>b r. add_record r b) b rs)))"
  by (induction rs arbitrary: b) (auto simp: distinct_add_record)

lemma update_present_keys:
  "k \<in> fst ` set al \<Longrightarrow> map fst (AList.update k v al) = map fst al"
  by (induction al) auto

text \<open>
  Claim C7. \<open>add_record\<close> stores the record under its name and cannot raise: the
  lookup of the name gives the record itself, whole, whatever was stored there before;
  every other key keeps its record; when the name was present, the keys and their
  order stay the same. Every key of an address book built by a sequence of
  \<open>add_record\<close> calls is the name of its record, and no key occurs twice.
\<close>

theorem add_record_spec:
  "map_of (data (add_record r b)) (value' (name r)) = Some r
   \<and> (\<forall>k. k \<noteq> value' (name r) \<longrightarrow> map_of (data (add_record r b)) k = map_of (data b) k)
   \<and> (value' (name r) \<in> fst ` set (data b) \<longrightarrow> map fst (data (add_record r b)) = map fst (data b))
   \<and> (keys_match b \<longrightarrow> keys_match (add_record r b))
   \<and> keys_match (foldl (\<lambda>b r. add_record r b) AddressBook_init rs)
   \<and> distinct (map fst (data (foldl (\<lambda>b r. add_record r b) AddressBook_init rs)))"
proof -
  have "keys_match AddressBook_init" "distinct (map fst (data AddressBook_init))"
    by (simp_all add: keys_match_def AddressBook_init_def)
  then have seq: "keys_match (foldl (\<lambda>b r. add_record r b) AddressBook_init rs)"
    "distinct (map fst (data (foldl (\<lambda>b r. add_record r b) AddressBook_init rs)))"
    by (simp_all add: keys_match_foldl distinct_foldl)
  have one: "map_of (data (add_record r b)) (value' (name r)) = Some r"
    "\<forall>k. k \<noteq> value' (name r) \<longrightarrow> map_of (data (add_record r b)) k = map_of (data b) k"
    "value' (name r) \<in> fst ` set (data b) \<longrightarrow> map fst (data (add_record r b)) = map fst (data b)"
    by (simp_all add: add_record_def update_conv' update_present_keys)
  from seq one show ?thesis
    by (simp add: keys_match_add_record)
qed

theorem add_record_spec_witness:
  "map_of (data (add_record \<lparr>name = \<lparr>value' = ''bob''\<rparr>, birthday = None, phones = []\<rparr>
       \<lparr>data = [(''bob'', \<lparr>name = \<lparr>value' = ''bob''\<rparr>, birthday = None, phones = [\<lparr>value' = ''123456789''\<rparr>]\<rparr>),
                (''al'', \<lparr>name = \<lparr>value' = ''al''\<rparr>, birthday = None, phones = []\<rparr>)]\<rparr>)) ''bob''
     = Some \<lparr>name = \<lparr>value' = ''bob''\<rparr>, birthday = None, phones = []\<rparr>
   \<and> map fst (data (add_record \<lparr>name = \<lparr>value' = ''bob''\<rparr>, birthday = None, phones = []\<rparr>
       \<lparr>data = [(''bob'', \<lparr>name = \<lparr>value' = ''bob''\<rparr>, birthday = None, phones = [\<lparr>value' = ''123456789''\<rparr>]\<rparr>),
                (''al'', \<lparr>name = \<lparr>value' = ''al''\<rparr>, birthday = None, phones = []\<rparr>)]\<rparr>)) = [''bob'', ''al'']
   \<and> keys_match (add_record \<lparr>name = \<lparr>value' = ''bob''\<rparr>, birthday = None, phones = []\<rparr>
       \<lparr>data = [(''bob'', \<lparr>name = \<lparr>value' = ''bob''\<rparr>, birthday = None, phones = [\<lparr>value' = ''123456789''\<rparr>]\<rparr>),
                (''al'', \<lparr>name = \<lparr>value' = ''al''\<rparr>, birthday = None, phones = []\<rparr>)]\<rparr>)"
  using add_record_spec
    [of "\<lparr>name = \<lparr>value' = ''bob''\<rparr>, birthday = None, phones = []\<rparr>"
        "\<lparr>data = [(''bob'', \<lparr>name = \<lparr>value' = ''bob''\<rparr>, birthday = None, phones = [\<lparr>value' = ''123456789''\<rparr>]\<rparr>),
                (''al'', \<lparr>name = \<lparr>value' = ''al''\<rparr>, birthday = None, phones = []\<rparr>)]\<rparr>"]
  by (simp add: keys_match_def)

section \<open>Persistence\<close>

text \<open>
  Claim C8. When \<open>pickle.load\<close> gives back what \<open>pickle.dump\<close> was given,
  \<open>save_to_file\<close> followed by \<open>load_from_file\<close> of the same file name yields the
  saved mapping: the same keys in the same order and, under each key, the same
  record with its name, phones and birthday.
\<close>

theorem save_load_roundtrip:
  assumes "load (dump (data book)) = Inr (data book)"
  shows "load_from_file load filename book' (save_to_file dump filename book w)
           = Inr (book'\<lparr>data := data book\<rparr>, save_to_file dump filename book w)"
  using assms by (simp add: load_from_file_def save_to_file_def)

theorem save_load_roundtrip_witness:
  "load_from_file Inr ''address_book.pkl'' AddressBook_init
     (save_to_file (\<lambda>d. d) ''address_book.pkl''
        \<lparr>data = [(''bob'', \<lparr>name = \<lparr>value' = ''bob''\<rparr>, birthday = Some \<lparr>value' = PyStr ''1990-05-17''\<rparr>,
                          phones = [\<lparr>value' = ''123456789''\<rparr>]\<rparr>)]\<rparr>
        \<lparr>files = Map.empty, stdout = []\<rparr>)
   = Inr (\<lparr>data = [(''bob'', \<lparr>name = \<lparr>value' = ''bob''\<rparr>, birthday = Some \<lparr>value' = PyStr ''1990-05-17''\<rparr>,
                          phones = [\<lparr>value' = ''123456789''\<rparr>]\<rparr>)]\<rparr>,
          \<lparr>files = [''address_book.pkl'' \<mapsto>
                     [(''bob'', \<lparr>name = \<lparr>value' = ''bob''\<rparr>, birthday = Some \<lparr>value' = PyStr ''1990-05-17''\<rparr>,
                                phones = [\<lparr>value' = ''123456789''\<rparr>]\<rparr>)]],
            stdout = []\<rparr>)"
  using save_load_roundtrip
    [of Inr "\<lambda>d. d"
        "\<lparr>data = [(''bob'', \<lparr>name = \<lparr>value' = ''bob''\<rparr>, birthday = Some \<lparr>value' = PyStr ''1990-05-17''\<rparr>,
                          phones = [\<lparr>value' = ''123456789''\<rparr>]\<rparr>)]\<rparr>"
        "''address_book.pkl''" AddressBook_init "\<lparr>files = Map.empty, stdout = []\<rparr>"]
  by (simp add: save_to_file_def AddressBook_init_def)

text \<open>
  Claim C9. \<open>load_from_file\<close> of a file name that does not exist returns without an
  error, with the mapping empty and one informational line printed; of a file that
  exists, it replaces the mapping by the content deserialized from the file.
\<close>

theorem load_from_file_spec:
  "(files w filename = None \<longrightarrow>
      load_from_file load filename book w =
        Inr (book\<lparr>data := []\<rparr>,
             w\<lparr>stdout := stdout w @ [''File not found. Creating a new address book.'']\<rparr>))
   \<and> (\<forall>bytes d. files w filename = Some bytes \<longrightarrow> load bytes = Inr d \<longrightarrow>
         load_from_file load filename book w = Inr (book\<lparr>data := d\<rparr>, w))"
  by (simp add: load_from_file_def)

theorem load_from_file_spec_witness:
  "load_from_file Inr ''address_book.pkl''
       \<lparr>data = [(''bob'', \<lparr>name = \<lparr>value' = ''bob''\<rparr>, birthday = None, phones = []\<rparr>)]\<rparr>
       \<lparr>files = Map.empty, stdout = []\<rparr>
     = Inr (\<lparr>data = []\<rparr>,
            \<lparr>files = Map.empty, stdout = [''File not found. Creating a new address book.'']\<rparr>)
   \<and> load_from_file Inr ''address_book.pkl''
       \<lparr>data = [(''bob'', \<lparr>name = \<lparr>value' = ''bob''\<rparr>, birthday = None, phones = []\<rparr>)]\<rparr>
       \<lparr>files = [''address_book.pkl'' \<mapsto> [(''al'', \<lparr>name = \<lparr>value' = ''al''\<rparr>, birthday = None, phones = []\<rparr>)]],
        stdout = []\<rparr>
     = Inr (\<lparr>data = [(''al'', \<lparr>name = \<lparr>value' = ''al''\<rparr>, birthday = None, phones = []\<rparr>)]\<rparr>,
            \<lparr>files = [''address_book.pkl'' \<mapsto> [(''al'', \<lparr>name = \<lparr>value' = ''al''\<rparr>, birthday = None, phones = []\<rparr>)]],
             stdout = []\<rparr>)"
  using load_from_file_spec
    [of "\<lparr>files = Map.empty, stdout = []\<rparr>" "''address_book.pkl''" Inr
        "\<lparr>data = [(''bob'', \<lparr>name = \<lparr>value' = ''bob''\<rparr>, birthday = None, phones = []\<rparr>)]\<rparr>"]
    load_from_file_spec
    [of "\<lparr>files = [''address_book.pkl'' \<mapsto> [(''al'', \<lparr>name = \<lparr>value' = ''al''\<rparr>, birthday = None, phones = []\<rparr>)]],
          stdout = []\<rparr>" "''address_book.pkl''" Inr
        "\<lparr>data = [(''bob'', \<lparr>name = \<lparr>value' = ''bob''\<rparr>, birthday = None, phones = []\<rparr>)]\<rparr>"]
  by simp

end
